theory Spec2Isabelle
  imports Main "HOL-Library.Word" "HOL-Library.Sublist"
begin

section \<open>Python exceptions\<close>

text \<open>
  Every \<^verbatim>\<open>raise\<close> of the modelled code is a value of this type. \<open>SMTPException\<close>
  stands for an instance of \<^verbatim>\<open>smtplib.SMTPException\<close> or of one of its subclasses
  (what \<^verbatim>\<open>except smtplib.SMTPException\<close> catches); \<open>OtherError name\<close> is an exception
  of any other class, e.g. a socket error raised by \<^verbatim>\<open>connect\<close>.
\<close>

datatype py_error =
    TypeError | KeyError | IndexError | AttributeError | AssertionError | RuntimeError
  | SMTPException | OtherError string

section \<open>The mail script (mail.py)\<close>

text \<open>
  A header value with its character set, \<^verbatim>\<open>Header(value, charset)\<close>, and the message
  object built by \<^verbatim>\<open>MIMEText(text, subtype, charset)\<close> with the headers assigned to it in
  order. Both classes belong to the standard library; the model records the constructor
  arguments and the header assignments only.
\<close>

type_synonym header = "string \<times> string"

record mime_text =
  payload :: string
  subtype :: string
  charset :: string
  headers :: "(string \<times> header) list"

definition MIMEText :: "string \<Rightarrow> string \<Rightarrow> string \<Rightarrow> mime_text" where
  "MIMEText text sub cs = \<lparr>payload = text, subtype = sub, charset = cs, headers = []\<rparr>"

definition set_header :: "mime_text \<Rightarrow> string \<Rightarrow> header \<Rightarrow> mime_text" where
  "set_header m name h = m\<lparr>headers := headers m @ [(name, h)]\<rparr>"

text \<open>
  What the script does to the outside world, in order: lines written to standard output and
  the calls made on the SMTP object with their arguments.
\<close>

datatype effect =
    Print string
  | Connect string nat
  | Login string string
  | Sendmail string "string list" string

text \<open>
  The outside world: for each call on the SMTP object, the exception it raises there (or
  none), and the library's serialisation \<^verbatim>\<open>message.as_string()\<close>.
\<close>

record smtp_env =
  connect_raises :: "string \<Rightarrow> nat \<Rightarrow> py_error option"
  login_raises :: "string \<Rightarrow> string \<Rightarrow> py_error option"
  sendmail_raises :: "string \<Rightarrow> string list \<Rightarrow> string \<Rightarrow> py_error option"
  as_string :: "mime_text \<Rightarrow> string"

text \<open>The two non-ASCII literals the script prints, as their UTF-8 bytes.\<close>

definition success_msg :: string where
  "success_msg = map char_of
     [0xe9, 0x82, 0xae, 0xe4, 0xbb, 0xb6, 0xe5, 0x8f, 0x91, 0xe9, 0x80, 0x81,
      0xe6, 0x88, 0x90, 0xe5, 0x8a, 0x9f :: nat]"

definition error_msg :: string where
  "error_msg = ''Error: '' @ map char_of
     [0xe6, 0x97, 0xa0, 0xe6, 0xb3, 0x95, 0xe5, 0x8f, 0x91, 0xe9, 0x80, 0x81,
      0xe9, 0x82, 0xae, 0xe4, 0xbb, 0xb6 :: nat]"

definition mail_host :: string where "mail_host = ''smtp.qq.com''"
definition mail_user :: string where "mail_user = ''1347481725@qq.com''"
definition mail_pass :: string where "mail_pass = ''awmwznsyfpwliecg''"
definition sender :: string where "sender = ''1347481725@qq.com''"
definition receivers :: "string list" where "receivers = [''liuyu@hit-mtlab.net'']"
definition subject :: string where "subject = ''Best_BLEU''"

text \<open>The message of lines 24 to 29, for the text \<open>s\<close>.\<close>

definition build_message :: "string \<Rightarrow> mime_text" where
  "build_message s =
     (let message = MIMEText s ''plain'' ''utf-8'';
          message = set_header message ''From'' (''Best_BLEU'', ''utf-8'');
          message = set_header message ''To'' (''BLEU'', ''utf-8'');
          message = set_header message ''Subject'' (subject, ''utf-8'')
      in message)"

text \<open>
  The body of the \<^verbatim>\<open>try\<close> block (lines 31 to 35): the effects performed, and the
  exception that ended the block, if any. A call that raises is recorded as attempted.
\<close>

definition try_body :: "smtp_env \<Rightarrow> mime_text \<Rightarrow> effect list \<times> py_error option" where
  "try_body env message =
     (case connect_raises env mail_host 25 of
        Some e \<Rightarrow> ([Connect mail_host 25], Some e)
      | None \<Rightarrow>
     (case login_raises env mail_user mail_pass of
        Some e \<Rightarrow> ([Connect mail_host 25, Login mail_user mail_pass], Some e)
      | None \<Rightarrow>
     (let text = as_string env message in
      case sendmail_raises env sender receivers text of
        Some e \<Rightarrow>
          ([Connect mail_host 25, Login mail_user mail_pass,
            Sendmail sender receivers text], Some e)
      | None \<Rightarrow>
          ([Connect mail_host 25, Login mail_user mail_pass,
            Sendmail sender receivers text, Print success_msg], None))))"

text \<open>
  \<^verbatim>\<open>main()\<close>, for the argument vector \<^verbatim>\<open>sys.argv\<close>: the effects performed and the
  exception that leaves \<^verbatim>\<open>main\<close>, if any. \<^verbatim>\<open>sys.argv[1]\<close> raises IndexError on a
  vector of fewer than two entries, at line 22, before anything is printed.
\<close>

definition main :: "smtp_env \<Rightarrow> string list \<Rightarrow> effect list \<times> py_error option" where
  "main env argv =
     (if length argv \<le> 1 then ([], Some IndexError)
      else
        let s = argv ! 1;
            message = build_message s;
            (effs, r) = try_body env message
        in (case r of
              Some SMTPException \<Rightarrow> (Print s # effs @ [Print error_msg], None)
            | _ \<Rightarrow> (Print s # effs, r)))"

definition is_smtp_call :: "effect \<Rightarrow> bool" where
  "is_smtp_call e = (case e of Print _ \<Rightarrow> False | _ \<Rightarrow> True)"

text \<open>An environment in which no call raises, and one whose login is refused.\<close>

definition env_ok :: smtp_env where
  "env_ok = \<lparr>connect_raises = (\<lambda>_ _. None), login_raises = (\<lambda>_ _. None),
             sendmail_raises = (\<lambda>_ _ _. None), as_string = payload\<rparr>"

definition env_refused :: smtp_env where
  "env_refused = env_ok\<lparr>login_raises := (\<lambda>_ _. Some SMTPException)\<rparr>"

definition env_unreachable :: smtp_env where
  "env_unreachable = env_ok\<lparr>connect_raises := (\<lambda>_ _. Some (OtherError ''gaierror''))\<rparr>"

text \<open>
  The exception raised by the first failing call of the connect, login, send sequence of
  the \<^verbatim>\<open>try\<close> block, if any; and the lines a run printed, in order.
\<close>

definition smtp_sequence_raises :: "smtp_env \<Rightarrow> mime_text \<Rightarrow> py_error option" where
  "smtp_sequence_raises env m =
     (case connect_raises env mail_host 25 of
        Some e \<Rightarrow> Some e
      | None \<Rightarrow>
     (case login_raises env mail_user mail_pass of
        Some e \<Rightarrow> Some e
      | None \<Rightarrow> sendmail_raises env sender receivers (as_string env m)))"

definition printed :: "effect list \<Rightarrow> string list" where
  "printed effs = concat (map (\<lambda>e. case e of Print s \<Rightarrow> [s] | _ \<Rightarrow> []) effs)"

section \<open>Tensors\<close>

text \<open>
  The tensor library is outside the repository. The operations the decoder calls on it are
  modelled on a tensor given by its shape and its element at every index vector, with the
  library's shape checks as errors. The element type stands for the tensor's dtype:
  \<open>bool\<close>, \<open>8 word\<close> for uint8 (addition wraps), \<open>int\<close> for the word indices, and a
  type parameter for floating point, whose arithmetic is not modelled.
\<close>

record 'a tensor =
  shape :: "nat list"
  at :: "nat list \<Rightarrow> 'a"

text \<open>Row-major offset of an index vector, and the index vector of an offset.\<close>

fun ravel :: "nat list \<Rightarrow> nat list \<Rightarrow> nat" where
  "ravel (d # ds) (i # is) = i * prod_list ds + ravel ds is"
| "ravel _ _ = 0"

fun unravel :: "nat list \<Rightarrow> nat \<Rightarrow> nat list" where
  "unravel [] n = []"
| "unravel (d # ds) n = (n div prod_list ds) # unravel ds (n mod prod_list ds)"

text \<open>\<^verbatim>\<open>torch.ones(shape, dtype=...)\<close>\<close>

definition ones :: "nat list \<Rightarrow> ('a::one) tensor" where
  "ones s = \<lparr>shape = s, at = (\<lambda>_. 1)\<rparr>"

text \<open>
  \<^verbatim>\<open>x.triu_(diagonal)\<close>: over the last two dimensions, the elements on and above the
  given diagonal (column - row \<ge> diagonal) are kept and the others become zero. A tensor
  of fewer than two dimensions is refused.
\<close>

definition triu :: "('a::zero) tensor \<Rightarrow> int \<Rightarrow> py_error + 'a tensor" where
  "triu x diagonal =
     (if length (shape x) < 2 then Inl RuntimeError
      else Inr \<lparr>shape = shape x,
                at = (\<lambda>idx. let n = length idx; r = idx ! (n - 2); c = idx ! (n - 1)
                            in if int c - int r \<ge> diagonal then at x idx else 0)\<rparr>)"

text \<open>
  \<^verbatim>\<open>x.view(shape)\<close>: the same elements in row-major order under a new shape of the same
  number of elements.
\<close>

definition view :: "'a tensor \<Rightarrow> nat list \<Rightarrow> py_error + 'a tensor" where
  "view x s =
     (if prod_list s \<noteq> prod_list (shape x) then Inl RuntimeError
      else Inr \<lparr>shape = s, at = (\<lambda>idx. at x (unravel (shape x) (ravel s idx)))\<rparr>)"

text \<open>\<^verbatim>\<open>x.size(-1)\<close>: the last dimension; a tensor without dimensions has none.\<close>

definition size_last :: "'a tensor \<Rightarrow> py_error + nat" where
  "size_last x = (if shape x = [] then Inl IndexError else Inr (last (shape x)))"

text \<open>
  Broadcasting: shapes are aligned at their last dimension; two dimensions are compatible
  when they are equal or one of them is 1. \<open>broadcast_rev\<close> works on the reversed shapes.
\<close>

fun broadcast_rev :: "nat list \<Rightarrow> nat list \<Rightarrow> nat list option" where
  "broadcast_rev [] ys = Some ys"
| "broadcast_rev xs [] = Some xs"
| "broadcast_rev (x # xs) (y # ys) =
     (if x = y \<or> y = 1 then map_option ((#) x) (broadcast_rev xs ys)
      else if x = 1 then map_option ((#) y) (broadcast_rev xs ys)
      else None)"

definition broadcast_shapes :: "nat list \<Rightarrow> nat list \<Rightarrow> nat list option" where
  "broadcast_shapes a b = map_option rev (broadcast_rev (rev a) (rev b))"

text \<open>
  The index into an operand of shape \<open>s\<close> for the index \<open>idx\<close> of the broadcast result:
  the leading dimensions the operand lacks are dropped, and a dimension of size 1 is read
  at 0.
\<close>

definition broadcast_index :: "nat list \<Rightarrow> nat list \<Rightarrow> nat list" where
  "broadcast_index s idx =
     map2 (\<lambda>d i. if d = 1 then 0 else i) s (drop (length idx - length s) idx)"

text \<open>\<^verbatim>\<open>x + y\<close> on tensors of one dtype.\<close>

definition tensor_add :: "('a::plus) tensor \<Rightarrow> 'a tensor \<Rightarrow> py_error + 'a tensor" where
  "tensor_add x y =
     (case broadcast_shapes (shape x) (shape y) of
        None \<Rightarrow> Inl RuntimeError
      | Some s \<Rightarrow>
          Inr \<lparr>shape = s,
               at = (\<lambda>idx. at x (broadcast_index (shape x) idx) +
                           at y (broadcast_index (shape y) idx))\<rparr>)"

text \<open>
  Type promotion of a boolean tensor in an addition with a uint8 tensor: False is 0 and
  True is 1.
\<close>

definition to_uint8 :: "bool tensor \<Rightarrow> 8 word tensor" where
  "to_uint8 x = \<lparr>shape = shape x, at = (\<lambda>idx. of_bool (at x idx))\<rparr>"

text \<open>\<^verbatim>\<open>torch.gt(x, c)\<close> and \<^verbatim>\<open>x.eq(c)\<close> for a scalar \<open>c\<close>.\<close>

definition gt_scalar :: "('a::ord) tensor \<Rightarrow> 'a \<Rightarrow> bool tensor" where
  "gt_scalar x c = \<lparr>shape = shape x, at = (\<lambda>idx. c < at x idx)\<rparr>"

definition eq_scalar :: "'a tensor \<Rightarrow> 'a \<Rightarrow> bool tensor" where
  "eq_scalar x c = \<lparr>shape = shape x, at = (\<lambda>idx. at x idx = c)\<rparr>"

text \<open>
  \<^verbatim>\<open>x.unsqueeze(1)\<close>: a new dimension of size 1 at position 1; the tensor must have at
  least one dimension.
\<close>

definition unsqueeze1 :: "'a tensor \<Rightarrow> py_error + 'a tensor" where
  "unsqueeze1 x =
     (if length (shape x) < 1 then Inl IndexError
      else Inr \<lparr>shape = take 1 (shape x) @ 1 # drop 1 (shape x),
                at = (\<lambda>idx. at x (take 1 idx @ drop 2 idx))\<rparr>)"

text \<open>
  \<^verbatim>\<open>x[:, :, 0]\<close>: the first entry along the third dimension; IndexError when the tensor
  has fewer than three dimensions or the third is empty.
\<close>

definition select_feature0 :: "'a tensor \<Rightarrow> py_error + 'a tensor" where
  "select_feature0 x =
     (if length (shape x) < 3 \<or> shape x ! 2 = 0 then Inl IndexError
      else Inr \<lparr>shape = take 2 (shape x) @ drop 3 (shape x),
                at = (\<lambda>idx. at x (take 2 idx @ 0 # drop 2 idx))\<rparr>)"

text \<open>\<^verbatim>\<open>x.transpose(0, 1)\<close> (followed or not by \<^verbatim>\<open>.contiguous()\<close>, which keeps every element).\<close>

fun swap01 :: "'b list \<Rightarrow> 'b list" where
  "swap01 (a # b # rest) = b # a # rest"
| "swap01 xs = xs"

definition transpose01 :: "'a tensor \<Rightarrow> py_error + 'a tensor" where
  "transpose01 x =
     (if length (shape x) < 2 then Inl IndexError
      else Inr \<lparr>shape = swap01 (shape x), at = (\<lambda>idx. at x (swap01 idx))\<rparr>)"

text \<open>
  \<^verbatim>\<open>x[:-1]\<close>: all but the last entry along the first dimension (none of an empty one); a
  tensor without dimensions cannot be sliced.
\<close>

definition slice_butlast :: "'a tensor \<Rightarrow> py_error + 'a tensor" where
  "slice_butlast x =
     (case shape x of
        [] \<Rightarrow> Inl IndexError
      | n # rest \<Rightarrow> Inr \<lparr>shape = (n - 1) # rest, at = at x\<rparr>)"

text \<open>A tensor from nested lists, for concrete inputs.\<close>

definition tensor2 :: "'a list list \<Rightarrow> 'a tensor" where
  "tensor2 rows =
     \<lparr>shape = [length rows, length (hd rows)],
      at = (\<lambda>idx. rows ! (idx ! 0) ! (idx ! 1))\<rparr>"

definition tensor3 :: "'a list list list \<Rightarrow> 'a tensor" where
  "tensor3 xs =
     \<lparr>shape = [length xs, length (hd xs), length (hd (hd xs))],
      at = (\<lambda>idx. xs ! (idx ! 0) ! (idx ! 1) ! (idx ! 2))\<rparr>"

section \<open>The decoder layer (TransformerDecoderLayer)\<close>

text \<open>
  Lines 56 to 67 of \<^verbatim>\<open>TransformerDecoderLayer.forward\<close>: the mask handed to the
  self-attention. \<open>tgt_pad_mask\<close> is the boolean tensor \<^verbatim>\<open>tgt_words.data.eq(pad_idx)\<close>
  with a dimension inserted; adding the uint8 \<open>future_mask\<close> to it promotes it to uint8.
\<close>

definition dec_mask_of ::
  "bool tensor \<Rightarrow> string \<Rightarrow> int option \<Rightarrow> py_error + bool tensor option" where
  "dec_mask_of tgt_pad_mask code_type step =
     (case step of
        Some _ \<Rightarrow> Inr None
      | None \<Rightarrow>
          if code_type = ''dec'' then
            (case size_last tgt_pad_mask of
               Inl e \<Rightarrow> Inl e
             | Inr tgt_len \<Rightarrow>
            (case triu (ones [tgt_len, tgt_len] :: 8 word tensor) 1 of
               Inl e \<Rightarrow> Inl e
             | Inr future_mask \<Rightarrow>
            (case view future_mask [1, tgt_len, tgt_len] of
               Inl e \<Rightarrow> Inl e
             | Inr future_mask \<Rightarrow>
            (case tensor_add (to_uint8 tgt_pad_mask) future_mask of
               Inl e \<Rightarrow> Inl e
             | Inr s \<Rightarrow> Inr (Some (gt_scalar s 0))))))
          else Inr (Some tgt_pad_mask))"

section \<open>Properties of the mail script\<close>

lemma try_body_cases:
  "try_body env m =
     (if connect_raises env mail_host 25 \<noteq> None
        then ([Connect mail_host 25], connect_raises env mail_host 25)
      else if login_raises env mail_user mail_pass \<noteq> None
        then ([Connect mail_host 25, Login mail_user mail_pass],
              login_raises env mail_user mail_pass)
      else if sendmail_raises env sender receivers (as_string env m) \<noteq> None
        then ([Connect mail_host 25, Login mail_user mail_pass,
               Sendmail sender receivers (as_string env m)],
              sendmail_raises env sender receivers (as_string env m))
      else ([Connect mail_host 25, Login mail_user mail_pass,
             Sendmail sender receivers (as_string env m), Print success_msg], None))"
  by (auto simp: try_body_def Let_def split: option.splits)

lemma main_connect_fails:
  "1 < length argv \<Longrightarrow> connect_raises env mail_host 25 = Some e \<Longrightarrow>
   main env argv =
     (if e = SMTPException
      then ([Print (argv ! 1), Connect mail_host 25, Print error_msg], None)
      else ([Print (argv ! 1), Connect mail_host 25], Some e))"
  by (cases e) (simp_all add: main_def try_body_def Let_def)

lemma main_login_fails:
  "1 < length argv \<Longrightarrow> connect_raises env mail_host 25 = None \<Longrightarrow>
   login_raises env mail_user mail_pass = Some e \<Longrightarrow>
   main env argv =
     (if e = SMTPException
      then ([Print (argv ! 1), Connect mail_host 25, Login mail_user mail_pass,
             Print error_msg], None)
      else ([Print (argv ! 1), Connect mail_host 25, Login mail_user mail_pass], Some e))"
  by (cases e) (simp_all add: main_def try_body_def Let_def)

lemma main_sendmail_fails:
  "1 < length argv \<Longrightarrow> connect_raises env mail_host 25 = None \<Longrightarrow>
   login_raises env mail_user mail_pass = None \<Longrightarrow>
   sendmail_raises env sender receivers (as_string env (build_message (argv ! 1))) = Some e \<Longrightarrow>
   main env argv =
     (if e = SMTPException
      then ([Print (argv ! 1), Connect mail_host 25, Login mail_user mail_pass,
             Sendmail sender receivers (as_string env (build_message (argv ! 1))),
             Print error_msg], None)
      else ([Print (argv ! 1), Connect mail_host 25, Login mail_user mail_pass,
             Sendmail sender receivers (as_string env (build_message (argv ! 1)))], Some e))"
  by (cases e) (simp_all add: main_def try_body_def Let_def)

lemma main_sent:
  "1 < length argv \<Longrightarrow> connect_raises env mail_host 25 = None \<Longrightarrow>
   login_raises env mail_user mail_pass = None \<Longrightarrow>
   sendmail_raises env sender receivers (as_string env (build_message (argv ! 1))) = None \<Longrightarrow>
   main env argv =
     ([Print (argv ! 1), Connect mail_host 25, Login mail_user mail_pass,
       Sendmail sender receivers (as_string env (build_message (argv ! 1))),
       Print success_msg], None)"
  by (simp add: main_def try_body_def Let_def)

lemma main_no_argument: "length argv \<le> 1 \<Longrightarrow> main env argv = ([], Some IndexError)"
  by (simp add: main_def)

lemma build_message_eq:
  "build_message s =
     \<lparr>payload = s, subtype = ''plain'', charset = ''utf-8'',
      headers = [(''From'', (''Best_BLEU'', ''utf-8'')),
                 (''To'', (''BLEU'', ''utf-8'')),
                 (''Subject'', (''Best_BLEU'', ''utf-8''))]\<rparr>"
  by (simp add: build_message_def MIMEText_def set_header_def subject_def)

lemma smtp_calls_prefix:
  assumes "1 < length argv"
  shows "prefix (filter is_smtp_call (fst (main env argv)))
           [Connect mail_host 25, Login mail_user mail_pass,
            Sendmail sender receivers (as_string env (build_message (argv ! 1)))]"
proof (cases "connect_raises env mail_host 25")
  case (Some e)
  show ?thesis
    by (simp add: main_connect_fails[OF assms Some] is_smtp_call_def)
next
  case c: None
  show ?thesis
  proof (cases "login_raises env mail_user mail_pass")
    case (Some e)
    show ?thesis
      by (simp add: main_login_fails[OF assms c Some] is_smtp_call_def)
  next
    case l: None
    show ?thesis
    proof (cases "sendmail_raises env sender receivers
                    (as_string env (build_message (argv ! 1)))")
      case (Some e)
      show ?thesis
        by (simp add: main_sendmail_fails[OF assms c l Some] is_smtp_call_def)
    next
      case None
      show ?thesis
        by (simp add: main_sent[OF assms c l None] is_smtp_call_def)
    qed
  qed
qed

text \<open>
  Claim C7. When the script is given at least one argument \<open>s = argv ! 1\<close>, the calls made
  on the SMTP object are an initial part of: connect to smtp.qq.com on port 25, log in as
  1347481725@qq.com with the fixed password, send from 1347481725@qq.com to the one receiver
  liuyu@hit-mtlab.net the serialisation of the message whose body is exactly \<open>s\<close> (plain
  text, UTF-8) and whose subject is Best_BLEU. When no call raises, all three calls are made.
  Nothing of the host, port, account, sender or receivers depends on the argument vector.
\<close>

theorem mail_fixed_message_and_destination:
  assumes "1 < length argv"
  shows "prefix (filter is_smtp_call (fst (main env argv)))
           [Connect ''smtp.qq.com'' 25,
            Login ''1347481725@qq.com'' ''awmwznsyfpwliecg'',
            Sendmail ''1347481725@qq.com'' [''liuyu@hit-mtlab.net'']
              (as_string env
                 \<lparr>payload = argv ! 1, subtype = ''plain'', charset = ''utf-8'',
                  headers = [(''From'', (''Best_BLEU'', ''utf-8'')),
                             (''To'', (''BLEU'', ''utf-8'')),
                             (''Subject'', (''Best_BLEU'', ''utf-8''))]\<rparr>)]
         \<and> (connect_raises env ''smtp.qq.com'' 25 = None \<and>
            login_raises env ''1347481725@qq.com'' ''awmwznsyfpwliecg'' = None \<and>
            sendmail_raises env ''1347481725@qq.com'' [''liuyu@hit-mtlab.net'']
              (as_string env (build_message (argv ! 1))) = None
            \<longrightarrow> filter is_smtp_call (fst (main env argv)) =
                [Connect ''smtp.qq.com'' 25,
                 Login ''1347481725@qq.com'' ''awmwznsyfpwliecg'',
                 Sendmail ''1347481725@qq.com'' [''liuyu@hit-mtlab.net'']
                   (as_string env (build_message (argv ! 1)))])"
proof -
  have p: "prefix (filter is_smtp_call (fst (main env argv)))
           [Connect mail_host 25, Login mail_user mail_pass,
            Sendmail sender receivers (as_string env (build_message (argv ! 1)))]"
    by (rule smtp_calls_prefix[OF assms])
  have s: "connect_raises env mail_host 25 = None \<and>
        login_raises env mail_user mail_pass = None \<and>
        sendmail_raises env sender receivers (as_string env (build_message (argv ! 1))) = None
        \<longrightarrow> filter is_smtp_call (fst (main env argv)) =
              [Connect mail_host 25, Login mail_user mail_pass,
               Sendmail sender receivers (as_string env (build_message (argv ! 1)))]"
    using main_sent[OF assms, of env] by (simp add: is_smtp_call_def)
  show ?thesis
    using p s
    unfolding mail_host_def mail_user_def mail_pass_def sender_def receivers_def
      build_message_eq
    by (rule conjI)
qed

theorem mail_fixed_message_and_destination_witness:
  "1 < length [''mail.py'', ''BLEU 27.3''] \<and>
   filter is_smtp_call (fst (main env_ok [''mail.py'', ''BLEU 27.3''])) =
     [Connect ''smtp.qq.com'' 25,
      Login ''1347481725@qq.com'' ''awmwznsyfpwliecg'',
      Sendmail ''1347481725@qq.com'' [''liuyu@hit-mtlab.net''] ''BLEU 27.3'']"
proof -
  have h: "1 < length [''mail.py'', ''BLEU 27.3'']" by simp
  have e: "connect_raises env_ok a b = None" "login_raises env_ok c d = None"
    "sendmail_raises env_ok f g i = None" "as_string env_ok = payload" for a b c d f g i
    by (simp_all add: env_ok_def)
  show ?thesis
    using mail_fixed_message_and_destination[OF h, of env_ok]
    by (simp add: e build_message_eq)
qed

lemma main_outcome:
  assumes "1 < length argv"
  shows "main env argv =
     (case smtp_sequence_raises env (build_message (argv ! 1)) of
        None \<Rightarrow> (fst (main env argv), None)
      | Some e \<Rightarrow> (fst (main env argv), if e = SMTPException then None else Some e))
     \<and> printed (fst (main env argv)) =
     (case smtp_sequence_raises env (build_message (argv ! 1)) of
        None \<Rightarrow> [argv ! 1, success_msg]
      | Some e \<Rightarrow> if e = SMTPException then [argv ! 1, error_msg] else [argv ! 1])"
proof (cases "connect_raises env mail_host 25")
  case (Some e)
  show ?thesis
    using main_connect_fails[OF assms Some] Some
    by (simp add: smtp_sequence_raises_def printed_def)
next
  case c: None
  show ?thesis
  proof (cases "login_raises env mail_user mail_pass")
    case (Some e)
    show ?thesis
      using main_login_fails[OF assms c Some] c Some
      by (simp add: smtp_sequence_raises_def printed_def)
  next
    case l: None
    show ?thesis
    proof (cases "sendmail_raises env sender receivers
                    (as_string env (build_message (argv ! 1)))")
      case (Some e)
      show ?thesis
        using main_sendmail_fails[OF assms c l Some] c l Some
        by (simp add: smtp_sequence_raises_def printed_def)
    next
      case None
      show ?thesis
        using main_sent[OF assms c l None] c l None
        by (simp add: smtp_sequence_raises_def printed_def)
    qed
  qed
qed

text \<open>
  Claim C9. Without a command-line argument \<^verbatim>\<open>main\<close> raises IndexError before anything is
  printed or sent. Otherwise: when the connect, login, send sequence raises an SMTPException,
  \<^verbatim>\<open>main\<close> prints the error message and returns normally; when the sequence raises
  nothing, it prints the success message and returns normally; when it raises an exception
  of any other class, that exception leaves \<^verbatim>\<open>main\<close> and neither message is printed.
\<close>

theorem main_catches_exactly_SMTPException:
  "(length argv \<le> 1 \<longrightarrow> main env argv = ([], Some IndexError)) \<and>
   (1 < length argv \<longrightarrow>
      (smtp_sequence_raises env (build_message (argv ! 1)) = Some SMTPException \<longrightarrow>
         snd (main env argv) = None \<and>
         printed (fst (main env argv)) = [argv ! 1, error_msg]) \<and>
      (smtp_sequence_raises env (build_message (argv ! 1)) = None \<longrightarrow>
         snd (main env argv) = None \<and>
         printed (fst (main env argv)) = [argv ! 1, success_msg]) \<and>
      (\<forall>e. smtp_sequence_raises env (build_message (argv ! 1)) = Some e \<and>
           e \<noteq> SMTPException \<longrightarrow>
         snd (main env argv) = Some e \<and>
         printed (fst (main env argv)) = [argv ! 1]))"
proof (cases "1 < length argv")
  case False
  then show ?thesis by (simp add: main_no_argument)
next
  case True
  have r: "snd (main env argv) =
     (case smtp_sequence_raises env (build_message (argv ! 1)) of
        None \<Rightarrow> None
      | Some e \<Rightarrow> if e = SMTPException then None else Some e)"
    using main_outcome[OF True, of env, THEN conjunct1]
    by (metis (no_types, lifting) option.case_eq_if snd_conv)
  show ?thesis
    using True r main_outcome[OF True, of env, THEN conjunct2] by simp
qed

theorem main_catches_exactly_SMTPException_witness:
  "main env_ok [''mail.py''] = ([], Some IndexError) \<and>
   snd (main env_refused [''mail.py'', ''BLEU 27.3'']) = None \<and>
   printed (fst (main env_refused [''mail.py'', ''BLEU 27.3''])) = [''BLEU 27.3'', error_msg] \<and>
   snd (main env_ok [''mail.py'', ''BLEU 27.3'']) = None \<and>
   printed (fst (main env_ok [''mail.py'', ''BLEU 27.3''])) = [''BLEU 27.3'', success_msg] \<and>
   snd (main env_unreachable [''mail.py'', ''BLEU 27.3'']) = Some (OtherError ''gaierror'') \<and>
   printed (fst (main env_unreachable [''mail.py'', ''BLEU 27.3''])) = [''BLEU 27.3'']"
proof -
  have a: "smtp_sequence_raises env_refused m = Some SMTPException"
    and b: "smtp_sequence_raises env_ok m = None"
    and c: "smtp_sequence_raises env_unreachable m = Some (OtherError ''gaierror'')" for m
    by (simp_all add: smtp_sequence_raises_def env_refused_def env_ok_def env_unreachable_def)
  show ?thesis
    using main_catches_exactly_SMTPException[of "[''mail.py'']" env_ok]
      main_catches_exactly_SMTPException[of "[''mail.py'', ''BLEU 27.3'']" env_refused]
      main_catches_exactly_SMTPException[of "[''mail.py'', ''BLEU 27.3'']" env_ok]
      main_catches_exactly_SMTPException[of "[''mail.py'', ''BLEU 27.3'']" env_unreachable]
    by (simp add: a b c)
qed

section \<open>Properties of the tensor operations\<close>

lemma broadcast_rev_same: "broadcast_rev xs xs = Some xs"
  by (induction xs) auto

lemma broadcast_shapes_same: "broadcast_shapes s s = Some s"
  by (simp add: broadcast_shapes_def broadcast_rev_same)

lemma tensor_add_same_shape:
  "shape x = shape y \<Longrightarrow> \<exists>z. tensor_add x y = Inr z \<and> shape z = shape y"
  by (simp add: tensor_add_def broadcast_shapes_same)

lemma broadcast_mask_shapes: "broadcast_shapes [B, 1, T] [1, T, T] = Some [B, T, T]"
  by (simp add: broadcast_shapes_def)

lemma broadcast_index_pad:
  "b < B \<Longrightarrow> k < T \<Longrightarrow> at m (broadcast_index [B, 1, T] [b, q, k]) = at m [b, 0, k]"
  by (cases "B = 1") (auto simp: broadcast_index_def)

lemma broadcast_index_future:
  "q < T \<Longrightarrow> k < T \<Longrightarrow> broadcast_index [1, T, T] [b, q, k] = [0, q, k]"
  by (auto simp: broadcast_index_def)

text \<open>
  The future mask of a layer: the strict upper triangle of a \<open>T\<close> by \<open>T\<close> matrix of ones,
  viewed with a leading dimension of size 1.
\<close>

lemma future_mask_at:
  "\<exists>fm fm'. triu (ones [T, T] :: 8 word tensor) 1 = Inr fm \<and>
           view fm [1, T, T] = Inr fm' \<and> shape fm' = [1, T, T] \<and>
           (\<forall>q k. k < T \<longrightarrow> at fm' [0, q, k] = (if q < k then 1 else 0))"
  by (auto simp: triu_def ones_def view_def)

section \<open>Properties of the decoder layer\<close>

text \<open>
  Claim C3. In a call of the layer with \<^verbatim>\<open>step=None\<close> and \<^verbatim>\<open>code_type='dec'\<close> on a padding
  mask of shape \<open>(B, 1, T)\<close>, the mask handed to the self-attention has shape \<open>(B, T, T)\<close>
  and, at every batch index \<open>b\<close> and positions \<open>q\<close>, \<open>k\<close> below \<open>T\<close>, is set exactly when
  the padding mask is set at \<open>(b, 0, k)\<close> or \<open>k > q\<close>: the diagonal and the earlier
  positions are never masked by the future mask.
\<close>

theorem dec_mask_causal:
  assumes "shape tgt_pad_mask = [B, 1, T]"
  shows "\<exists>dec_mask. dec_mask_of tgt_pad_mask ''dec'' None = Inr (Some dec_mask) \<and>
     shape dec_mask = [B, T, T] \<and>
     (\<forall>b<B. \<forall>q<T. \<forall>k<T. at dec_mask [b, q, k] = (at tgt_pad_mask [b, 0, k] \<or> k > q))"
proof -
  obtain fm fm' where fm: "triu (ones [T, T] :: 8 word tensor) 1 = Inr fm"
    and fm': "view fm [1, T, T] = Inr fm'"
    and fms: "shape fm' = [1, T, T]"
    and fma: "\<And>q k. k < T \<Longrightarrow> at fm' [0, q, k] = (if q < k then 1 else 0)"
    using future_mask_at[of T] by blast
  let ?s = "\<lparr>shape = [B, T, T],
        at = (\<lambda>idx. at (to_uint8 tgt_pad_mask) (broadcast_index [B, 1, T] idx) +
                    at fm' (broadcast_index [1, T, T] idx))\<rparr>"
  have dm: "dec_mask_of tgt_pad_mask ''dec'' None = Inr (Some (gt_scalar ?s 0))"
    using assms fm fm' fms broadcast_mask_shapes[of B T]
    by (simp add: dec_mask_of_def size_last_def tensor_add_def to_uint8_def)
  have "at (gt_scalar ?s 0) [b, q, k] = (at tgt_pad_mask [b, 0, k] \<or> k > q)"
    if "b < B" "q < T" "k < T" for b q k
  proof -
    have 1: "at (to_uint8 tgt_pad_mask) (broadcast_index [B, 1, T] [b, q, k]) =
             of_bool (at tgt_pad_mask [b, 0, k])"
      using broadcast_index_pad[OF that(1) that(3), of tgt_pad_mask q]
      by (simp add: to_uint8_def)
    have 2: "at fm' (broadcast_index [1, T, T] [b, q, k]) = (if q < k then 1 else 0)"
      using broadcast_index_future[OF that(2) that(3), of b] fma[OF that(3), of q] by simp
    show ?thesis
      unfolding gt_scalar_def using 1 2 by simp
  qed
  then show ?thesis
    unfolding dm by (simp add: gt_scalar_def)
qed

theorem dec_mask_causal_witness:
  "shape (tensor3 [[[False, False, True]], [[False, False, False]]]) = [2, 1, 3] \<and>
   (\<exists>dec_mask.
      dec_mask_of (tensor3 [[[False, False, True]], [[False, False, False]]]) ''dec'' None =
        Inr (Some dec_mask) \<and>
      shape dec_mask = [2, 3, 3] \<and>
      at dec_mask [0, 1, 1] = False \<and> at dec_mask [0, 1, 2] = True \<and>
      at dec_mask [0, 0, 2] = True \<and> at dec_mask [1, 2, 1] = False \<and>
      at dec_mask [1, 1, 2] = True)"
proof -
  let ?m = "tensor3 [[[False, False, True]], [[False, False, False]]]"
  have h: "shape ?m = [2, 1, 3]" by (simp add: tensor3_def)
  have a: "at ?m [0, 0, 1] = False" "at ?m [0, 0, 2] = True" "at ?m [1, 0, 1] = False"
    "at ?m [1, 0, 2] = False"
    by (simp_all add: tensor3_def)
  from dec_mask_causal[OF h] obtain dm where
    dm: "dec_mask_of ?m ''dec'' None = Inr (Some dm)" and s: "shape dm = [2, 3, 3]"
    and v: "\<And>b q k. b < 2 \<Longrightarrow> q < 3 \<Longrightarrow> k < 3 \<Longrightarrow>
              at dm [b, q, k] = (at ?m [b, 0, k] \<or> k > q)"
    by blast
  have "at dm [0, 1, 1] = False" "at dm [0, 1, 2] = True" "at dm [0, 0, 2] = True"
    "at dm [1, 2, 1] = False" "at dm [1, 1, 2] = True"
    using v[of 0 1 1] v[of 0 1 2] v[of 0 0 2] v[of 1 2 1] v[of 1 1 2] a by simp_all
  then show ?thesis using h dm s by blast
qed

end
